theory Spec2Isabelle
  imports Complex_Main
begin

section \<open>Decisions, exceptions and log entries, as values\<close>

text \<open>
  The decision record that \<open>check_rate_limit\<close> returns beside its boolean: the dict with
  the keys \<open>limit\<close>, \<open>remaining\<close>, \<open>reset\<close> and \<open>window\<close>. The source renders
  \<open>reset\<close> with \<open>datetime.fromtimestamp(reset_ts).isoformat()\<close>; the model keeps the
  integer \<open>reset_ts\<close> that is rendered. \<open>fromtimestamp\<close> raises on a timestamp
  outside the range of the platform (\<open>OverflowError\<close>, \<open>OSError\<close> or
  \<open>ValueError\<close>, here one \<open>OverflowError\<close>); the functions of the rate limiter
  take that range as the predicate \<open>ts_ok\<close>.
\<close>

record rate_info =
  limit :: int
  remaining :: int
  reset :: int
  window :: int

text \<open>
  The exceptions. \<open>BackendError\<close> and \<open>StorageError\<close> stand for whatever a backend
  library and the database session raise; the detail of an \<open>HTTPException\<close> is the
  rate-limit decision or a message.
\<close>

datatype http_detail =
  RateLimitExceeded rate_info
| Detail string

datatype py_error =
  ZeroDivisionError
| RuntimeError string
| ValueError string
| AttributeError string
| BackendError string
| StorageError string
| AssertionError
| OverflowError
| HTTPException int http_detail

text \<open>
  What the module loggers receive. An error entry keeps the exception that the source
  formats into the message after the given prefix.
\<close>

datatype log_entry =
  LogInfo string
| LogWarning string
| LogError string py_error

section \<open>rate_limit_service.py\<close>

text \<open>One value of the dict \<open>_counters\<close>: \<open>{'window_start': int, 'count': int}\<close>.\<close>

record counter_entry =
  window_start :: int
  count :: int

record RateLimitService =
  default_requests :: int
  default_window :: int
  counters :: "string \<rightharpoonup> counter_entry"

text \<open>\<open>RateLimitService.__init__\<close>, given the two settings it reads.\<close>

definition RateLimitService_init :: "int \<Rightarrow> int \<Rightarrow> RateLimitService" where
  "RateLimitService_init rate_limit_requests rate_limit_window =
     \<lparr>default_requests = rate_limit_requests,
      default_window = rate_limit_window,
      counters = Map.empty\<rparr>"

text \<open>
  \<open>_get_window_start\<close>. The argument \<open>current_time\<close> is the reading
  \<open>int(time.time())\<close> of the clock. Python's \<open>//\<close> on integers rounds to minus
  infinity, as \<open>div\<close> on \<open>int\<close> does, and raises on a zero divisor.
\<close>

definition get_window_start :: "int \<Rightarrow> int \<Rightarrow> py_error + int" where
  "get_window_start current_time window_arg =
     (if window_arg = 0 then Inl ZeroDivisionError
      else Inr ((current_time div window_arg) * window_arg))"

text \<open>
  \<open>check_rate_limit\<close>, with the service and the clock reading passed in and the service
  returned. The entry the source increments in place is the dict stored in
  \<open>_counters\<close>, so the increment is an update of the map. The division raises before
  the first assignment; \<open>fromtimestamp\<close> raises after the last one, so the service is
  returned beside an error as well.
\<close>

definition check_rate_limit ::
  "(int \<Rightarrow> bool) \<Rightarrow> RateLimitService \<Rightarrow> int \<Rightarrow> string \<Rightarrow> int option \<Rightarrow> int option
     \<Rightarrow> (py_error + (bool \<times> rate_info)) \<times> RateLimitService" where
  "check_rate_limit ts_ok self current_time identifier requests_arg window_arg =
     (let requests = (case requests_arg of None \<Rightarrow> default_requests self | Some r \<Rightarrow> r);
          win = (case window_arg of None \<Rightarrow> default_window self | Some w \<Rightarrow> w)
      in case get_window_start current_time win of
           Inl e \<Rightarrow> (Inl e, self)
         | Inr ws \<Rightarrow>
            (let stale = (case counters self identifier of
                            None \<Rightarrow> True
                          | Some e \<Rightarrow> window_start e \<noteq> ws);
                 self1 = (if stale
                          then self\<lparr>counters := (counters self)(identifier \<mapsto>
                                 \<lparr>window_start = ws, count = 0\<rparr>)\<rparr>
                          else self);
                 entry = the (counters self1 identifier)
             in if count entry \<ge> requests
                then
                  (let reset_ts = ws + win
                   in if \<not> ts_ok reset_ts then (Inl OverflowError, self1)
                      else (Inr (False, \<lparr>limit = requests, remaining = 0,
                                         reset = reset_ts, window = win\<rparr>), self1))
                else
                  (let entry' = entry\<lparr>count := count entry + 1\<rparr>;
                       self2 = self1\<lparr>counters := (counters self1)(identifier \<mapsto> entry')\<rparr>;
                       remaining_now = max 0 (requests - count entry');
                       reset_ts = ws + win
                   in if \<not> ts_ok reset_ts then (Inl OverflowError, self2)
                      else (Inr (True, \<lparr>limit = requests, remaining = remaining_now,
                                        reset = reset_ts, window = win\<rparr>), self2))))"

text \<open>
  \<open>enforce_rate_limit\<close>: the denial becomes an \<open>HTTPException\<close> with status 429 whose
  detail and headers carry the decision.
\<close>

definition enforce_rate_limit ::
  "(int \<Rightarrow> bool) \<Rightarrow> RateLimitService \<Rightarrow> int \<Rightarrow> string \<Rightarrow> int option \<Rightarrow> int option
     \<Rightarrow> (py_error + rate_info) \<times> RateLimitService" where
  "enforce_rate_limit ts_ok self current_time identifier requests_arg window_arg =
     (case check_rate_limit ts_ok self current_time identifier requests_arg window_arg of
        (Inl e, self') \<Rightarrow> (Inl e, self')
      | (Inr (is_allowed, info), self') \<Rightarrow>
          if \<not> is_allowed then (Inl (HTTPException 429 (RateLimitExceeded info)), self')
          else (Inr info, self'))"

text \<open>
  A sequence of calls of \<open>check_rate_limit\<close> on one service, by any callers, in the
  order they run, with the outcome of each.
\<close>

record rl_call =
  call_time :: int
  call_identifier :: string
  call_requests :: "int option"
  call_window :: "int option"

fun run_checks ::
  "(int \<Rightarrow> bool) \<Rightarrow> RateLimitService \<Rightarrow> rl_call list
     \<Rightarrow> (py_error + (bool \<times> rate_info)) list \<times> RateLimitService" where
  "run_checks ts_ok self [] = ([], self)"
| "run_checks ts_ok self (c # cs) =
     (case check_rate_limit ts_ok self (call_time c) (call_identifier c) (call_requests c)
             (call_window c) of
        (r, self1) \<Rightarrow>
          (case run_checks ts_ok self1 cs of (rs, self') \<Rightarrow> (r # rs, self')))"

text \<open>The outcomes of the calls that one identifier made, in order.\<close>

definition outcomes_for ::
  "string \<Rightarrow> rl_call list \<Rightarrow> (py_error + (bool \<times> rate_info)) list
     \<Rightarrow> (py_error + (bool \<times> rate_info)) list" where
  "outcomes_for identifier cs rs = map snd (filter (\<lambda>(c, r). call_identifier c = identifier) (zip cs rs))"

section \<open>config.py\<close>

text \<open>The fields of \<open>Settings\<close> that the modelled services read.\<close>

record Settings =
  llm_provider :: string
  llm_model :: string
  llm_model_path :: "string option"
  openai_api_key :: "string option"
  anthropic_api_key :: "string option"
  rate_limit_requests :: int
  rate_limit_window :: int
  price_per_1k_tokens :: real

text \<open>The defaults that \<open>config.py\<close> gives these fields.\<close>

definition default_settings :: Settings where
  "default_settings =
     \<lparr>llm_provider = ''llamacpp'',
      llm_model = ''meta-llama/Llama-2-7b-chat-hf'',
      llm_model_path = Some ''models/TinyLlama-1.1B-Chat-v1.0.Q4_K_M.gguf'',
      openai_api_key = None,
      anthropic_api_key = None,
      rate_limit_requests = 100,
      rate_limit_window = 3600,
      price_per_1k_tokens = 0\<rparr>"

section \<open>Python string helpers\<close>

text \<open>
  \<open>str.lower\<close>, \<open>str.strip\<close> and \<open>os.path.basename\<close> on strings of bytes: the
  ASCII letters are folded and the ASCII white space is stripped.
\<close>

definition lower_char :: "char \<Rightarrow> char" where
  "lower_char c =
     (case map_of (zip ''ABCDEFGHIJKLMNOPQRSTUVWXYZ'' ''abcdefghijklmnopqrstuvwxyz'') c of
        None \<Rightarrow> c
      | Some d \<Rightarrow> d)"

definition lower :: "string \<Rightarrow> string" where
  "lower s = map lower_char s"

definition isspace :: "char \<Rightarrow> bool" where
  "isspace c = (c \<in> set [CHR '' '', CHR 0x09, CHR 0x0A, CHR 0x0B, CHR 0x0C, CHR 0x0D,
                           CHR 0x1C, CHR 0x1D, CHR 0x1E, CHR 0x1F])"

definition strip :: "string \<Rightarrow> string" where
  "strip s = rev (dropWhile isspace (rev (dropWhile isspace s)))"

definition basename :: "string \<Rightarrow> string" where
  "basename p = rev (takeWhile (\<lambda>c. c \<noteq> CHR ''/'') (rev p))"

text \<open>\<open>int(x)\<close> on a float, read as a real: truncation towards zero.\<close>

definition py_int :: "real \<Rightarrow> int" where
  "py_int x = (if 0 \<le> x then \<lfloor>x\<rfloor> else \<lceil>x\<rceil>)"

section \<open>llm_service.py\<close>

record GenerationRequest =
  prompt :: string
  max_tokens :: int
  temperature :: real
  top_p :: real
  model :: string
  stop_sequences :: "string list option"

text \<open>The field \<open>text\<close> of the source is \<open>gen_text\<close> here.\<close>

record GenerationResponse =
  gen_text :: string
  input_tokens :: int
  output_tokens :: int
  total_tokens :: int
  model_used :: string
  provider :: string
  response_time_ms :: int
  cost :: real

subsection \<open>The backends, as the code sees them\<close>

text \<open>
  A loaded llama.cpp model: its tokenizer and its completion call (prompt, max_tokens,
  temperature, top_p, stop), which yields \<open>result["choices"][0]["text"]\<close> or raises.
\<close>

record Llama =
  llama_tokenize :: "string \<Rightarrow> nat list"
  llama_call :: "string \<Rightarrow> int \<Rightarrow> real \<Rightarrow> real \<Rightarrow> string list option \<Rightarrow> py_error + string"

text \<open>
  A loaded Hugging Face pipeline with its tokenizer: the \<open>input_ids\<close> of a prompt, the
  encoding of a text, and the pipeline call (prompt, max_new_tokens, temperature, top_p),
  which yields \<open>outputs[0]["generated_text"]\<close> or raises.
\<close>

record HFPipeline =
  hf_input_ids :: "string \<Rightarrow> nat list"
  hf_encode :: "string \<Rightarrow> nat list"
  hf_pipe :: "string \<Rightarrow> int \<Rightarrow> real \<Rightarrow> real \<Rightarrow> py_error + string"

text \<open>What the code reads of an OpenAI chat completion and of an Anthropic message.\<close>

record OpenAIResponse =
  message_content :: string
  usage_prompt_tokens :: int
  usage_completion_tokens :: int
  usage_total_tokens :: int

record AnthropicResponse =
  content_text :: string
  usage_input_tokens :: int
  usage_output_tokens :: int

text \<open>\<open>client.messages.create\<close> (model, max_tokens, temperature, top_p, prompt).\<close>

record AnthropicClient =
  messages_create :: "string \<Rightarrow> int \<Rightarrow> real \<Rightarrow> real \<Rightarrow> string \<Rightarrow> py_error + AnthropicResponse"

text \<open>
  The process environment: which optional packages were imported, the file system, the
  timestamps that \<open>datetime.fromtimestamp\<close> accepts, the constructors of the backends,
  and \<open>openai.ChatCompletion.create\<close> (the module's
  \<open>api_key\<close>, then model, prompt, max_tokens, temperature, top_p, stop).
\<close>

record Env =
  transformers_installed :: bool
  openai_installed :: bool
  anthropic_installed :: bool
  llama_cpp_installed :: bool
  path_exists :: "string \<Rightarrow> bool"
  fromtimestamp_ok :: "int \<Rightarrow> bool"
  hf_load :: "string \<Rightarrow> py_error + HFPipeline"
  Llama_new :: "string \<Rightarrow> py_error + Llama"
  Anthropic_new :: "string \<Rightarrow> AnthropicClient"
  ChatCompletion_create ::
    "string option \<Rightarrow> string \<Rightarrow> string \<Rightarrow> int \<Rightarrow> real \<Rightarrow> real \<Rightarrow> string list option
       \<Rightarrow> py_error + OpenAIResponse"

text \<open>
  The service object. \<open>pipelines_default\<close> stands for the entries \<open>"default"\<close> of
  \<open>models\<close>, \<open>tokenizers\<close> and \<open>pipelines\<close>, which are set together;
  \<open>anthropic_client\<close> is \<open>None\<close> while the attribute does not exist; \<open>openai_key\<close>
  is the module attribute \<open>openai.api_key\<close>.
\<close>

record LLMService =
  pipelines_default :: "HFPipeline option"
  llamacpp_model :: "Llama option"
  anthropic_client :: "AnthropicClient option"
  openai_key :: "string option"

definition load_huggingface_model ::
  "LLMService \<Rightarrow> Settings \<Rightarrow> Env \<Rightarrow> log_entry list \<Rightarrow> (py_error + LLMService) \<times> log_entry list" where
  "load_huggingface_model self st env lg =
     (if \<not> transformers_installed env
      then (Inl (RuntimeError
              ''transformers/torch not installed. Install them or switch to llama.cpp.''), lg)
      else
        (let lg1 = lg @ [LogInfo (''Loading Hugging Face model: '' @ llm_model st)]
         in case hf_load env (llm_model st) of
              Inl e \<Rightarrow> (Inl e, lg1 @ [LogError ''Failed to load Hugging Face model: '' e])
            | Inr pipe \<Rightarrow>
                (Inr (self\<lparr>pipelines_default := Some pipe\<rparr>),
                 lg1 @ [LogInfo ''Hugging Face model loaded successfully''])))"

definition model_not_found :: "string option \<Rightarrow> py_error" where
  "model_not_found model_path =
     RuntimeError (''llama.cpp model file not found at '' @ [CHR 0x27]
       @ (case model_path of None \<Rightarrow> ''None'' | Some p \<Rightarrow> p) @ [CHR 0x27]
       @ ''. Download a GGUF model and set LLM_MODEL_PATH.'')"

definition load_llamacpp_model ::
  "LLMService \<Rightarrow> Settings \<Rightarrow> Env \<Rightarrow> log_entry list \<Rightarrow> (py_error + LLMService) \<times> log_entry list" where
  "load_llamacpp_model self st env lg =
     (if \<not> llama_cpp_installed env
      then (Inl (RuntimeError ''llama-cpp-python not installed. pip install llama-cpp-python''), lg)
      else
        (case llm_model_path st of
           None \<Rightarrow> (Inl (model_not_found None), lg)
         | Some model_path \<Rightarrow>
             if model_path = [] \<or> \<not> path_exists env model_path
             then (Inl (model_not_found (Some model_path)), lg)
             else
               (let lg1 = lg @ [LogInfo (''Loading llama.cpp model from: '' @ model_path)]
                in case Llama_new env model_path of
                     Inl e \<Rightarrow> (Inl e, lg1)
                   | Inr m \<Rightarrow>
                       (Inr (self\<lparr>llamacpp_model := Some m\<rparr>),
                        lg1 @ [LogInfo ''llama.cpp model loaded successfully'']))))"

definition initialize_openai ::
  "LLMService \<Rightarrow> Settings \<Rightarrow> Env \<Rightarrow> log_entry list \<Rightarrow> (py_error + LLMService) \<times> log_entry list" where
  "initialize_openai self st env lg =
     (if \<not> openai_installed env
      then (Inl (RuntimeError
              ''openai package not installed. Install it or use llama.cpp for free setup.''), lg)
      else if openai_api_key st = None \<or> openai_api_key st = Some []
      then (Inl (ValueError ''OpenAI API key not configured''), lg)
      else (Inr (self\<lparr>openai_key := openai_api_key st\<rparr>),
            lg @ [LogInfo ''OpenAI client initialized'']))"

definition initialize_anthropic ::
  "LLMService \<Rightarrow> Settings \<Rightarrow> Env \<Rightarrow> log_entry list \<Rightarrow> (py_error + LLMService) \<times> log_entry list" where
  "initialize_anthropic self st env lg =
     (if \<not> anthropic_installed env
      then (Inl (RuntimeError
              ''anthropic package not installed. Install it or use llama.cpp for free setup.''), lg)
      else
        (case anthropic_api_key st of
           None \<Rightarrow> (Inl (ValueError ''Anthropic API key not configured''), lg)
         | Some k \<Rightarrow>
             if k = [] then (Inl (ValueError ''Anthropic API key not configured''), lg)
             else (Inr (self\<lparr>anthropic_client := Some (Anthropic_new env k)\<rparr>),
                   lg @ [LogInfo ''Anthropic client initialized''])))"

text \<open>The body of the \<open>try\<close> of \<open>_initialize_models\<close>: the chain on the provider name.\<close>

definition initialize_models_try ::
  "LLMService \<Rightarrow> Settings \<Rightarrow> Env \<Rightarrow> log_entry list \<Rightarrow> (py_error + LLMService) \<times> log_entry list" where
  "initialize_models_try self st env lg =
     (let provider = lower (llm_provider st)
      in if provider = ''huggingface'' then load_huggingface_model self st env lg
         else if provider = ''openai'' then initialize_openai self st env lg
         else if provider = ''anthropic'' then initialize_anthropic self st env lg
         else if provider \<in> set [''llamacpp'', ''llama.cpp'', ''llama-cpp'']
         then load_llamacpp_model self st env lg
         else load_llamacpp_model self st env
                (lg @ [LogWarning (''Unknown LLM provider '' @ [CHR 0x27] @ llm_provider st
                         @ [CHR 0x27] @ '', defaulting to llama.cpp'')]))"

text \<open>
  \<open>_initialize_models\<close>: the \<open>except Exception\<close> around the chain logs the error and
  returns. Every loader assigns to \<open>self\<close> last, so a loader that raised left \<open>self\<close>
  as it was. The result is a sum so that a raise of this function could be told from a
  return.
\<close>

definition initialize_models ::
  "LLMService \<Rightarrow> Settings \<Rightarrow> Env \<Rightarrow> log_entry list \<Rightarrow> (py_error + LLMService) \<times> log_entry list" where
  "initialize_models self st env lg =
     (case initialize_models_try self st env lg of
        (Inl e, lg') \<Rightarrow> (Inr self, lg' @ [LogError ''Failed to initialize LLM service: '' e])
      | (Inr self', lg') \<Rightarrow> (Inr self', lg'))"

text \<open>\<open>LLMService.__init__\<close>, run once when the module is imported.\<close>

definition LLMService_init ::
  "Settings \<Rightarrow> Env \<Rightarrow> (py_error + LLMService) \<times> log_entry list" where
  "LLMService_init st env =
     initialize_models
       \<lparr>pipelines_default = None, llamacpp_model = None,
        anthropic_client = None, openai_key = None\<rparr> st env []"

definition generate_huggingface ::
  "LLMService \<Rightarrow> Settings \<Rightarrow> Env \<Rightarrow> GenerationRequest \<Rightarrow> py_error + GenerationResponse" where
  "generate_huggingface self st env request =
     (if \<not> transformers_installed env then Inl (RuntimeError ''transformers/torch not installed.'')
      else
        (case pipelines_default self of
           None \<Rightarrow> Inl (ValueError ''Hugging Face model not loaded'')
         | Some pipe \<Rightarrow>
             (let input_tokens = int (length (hf_input_ids pipe (prompt request)))
              in case hf_pipe pipe (prompt request) (max_tokens request)
                        (temperature request) (top_p request) of
                   Inl e \<Rightarrow> Inl e
                 | Inr generated_text \<Rightarrow>
                     (let output_text = drop (length (prompt request)) generated_text;
                          output_tokens = int (length (hf_encode pipe output_text));
                          total_tokens = input_tokens + output_tokens
                      in Inr \<lparr>gen_text = strip output_text,
                              input_tokens = input_tokens,
                              output_tokens = output_tokens,
                              total_tokens = total_tokens,
                              model_used = llm_model st,
                              provider = ''huggingface'',
                              response_time_ms = 0,
                              cost = 0\<rparr>))))"

text \<open>
  \<open>_generate_llamacpp\<close> loads the model when none is loaded, so it returns the service
  and the log as well.
\<close>

definition generate_llamacpp ::
  "LLMService \<Rightarrow> Settings \<Rightarrow> Env \<Rightarrow> GenerationRequest \<Rightarrow> log_entry list
     \<Rightarrow> (py_error + GenerationResponse) \<times> LLMService \<times> log_entry list" where
  "generate_llamacpp self st env request lg =
     (case (if llamacpp_model self = None then load_llamacpp_model self st env lg
            else (Inr self, lg)) of
        (Inl e, lg') \<Rightarrow> (Inl e, self, lg')
      | (Inr self', lg') \<Rightarrow>
          (case llamacpp_model self' of
             None \<Rightarrow> (Inl AssertionError, self', lg')
           | Some llm \<Rightarrow>
               (let input_tokens = int (length (llama_tokenize llm (prompt request)))
                in case llama_call llm (prompt request) (max_tokens request)
                          (temperature request) (top_p request)
                          (case stop_sequences request of
                             None \<Rightarrow> None
                           | Some ss \<Rightarrow> if ss = [] then None else Some ss) of
                     Inl e \<Rightarrow> (Inl e, self', lg')
                   | Inr txt \<Rightarrow>
                       (let output_tokens = int (length (llama_tokenize llm txt));
                            total_tokens = input_tokens + output_tokens;
                            model_name = basename (case llm_model_path st of
                                                     None \<Rightarrow> ''model.gguf''
                                                   | Some p \<Rightarrow> if p = [] then ''model.gguf'' else p)
                        in (Inr \<lparr>gen_text = strip txt,
                                  input_tokens = input_tokens,
                                  output_tokens = output_tokens,
                                  total_tokens = total_tokens,
                                  model_used = model_name,
                                  provider = ''llamacpp'',
                                  response_time_ms = 0,
                                  cost = 0\<rparr>, self', lg')))))"

definition generate_openai ::
  "LLMService \<Rightarrow> Env \<Rightarrow> GenerationRequest \<Rightarrow> py_error + GenerationResponse" where
  "generate_openai self env request =
     (if \<not> openai_installed env then Inl (RuntimeError ''openai package not installed.'')
      else
        (let model_name = (if model request = [] then ''gpt-3.5-turbo'' else model request)
         in case ChatCompletion_create env (openai_key self) model_name (prompt request)
                   (max_tokens request) (temperature request) (top_p request)
                   (stop_sequences request) of
              Inl e \<Rightarrow> Inl e
            | Inr response \<Rightarrow>
                Inr \<lparr>gen_text = message_content response,
                     input_tokens = usage_prompt_tokens response,
                     output_tokens = usage_completion_tokens response,
                     total_tokens = usage_total_tokens response,
                     model_used = model_name,
                     provider = ''openai'',
                     response_time_ms = 0,
                     cost = 0\<rparr>))"

definition generate_anthropic ::
  "LLMService \<Rightarrow> Env \<Rightarrow> GenerationRequest \<Rightarrow> py_error + GenerationResponse" where
  "generate_anthropic self env request =
     (if \<not> anthropic_installed env then Inl (RuntimeError ''anthropic package not installed.'')
      else
        (case anthropic_client self of
           None \<Rightarrow> Inl (AttributeError ''anthropic_client'')
         | Some client \<Rightarrow>
             (let model_name = (if model request = [] then ''claude-3-sonnet-20240229''
                                else model request)
              in case messages_create client model_name (max_tokens request)
                        (temperature request) (top_p request) (prompt request) of
                   Inl e \<Rightarrow> Inl e
                 | Inr response \<Rightarrow>
                     Inr \<lparr>gen_text = content_text response,
                          input_tokens = usage_input_tokens response,
                          output_tokens = usage_output_tokens response,
                          total_tokens = usage_input_tokens response + usage_output_tokens response,
                          model_used = model_name,
                          provider = ''anthropic'',
                          response_time_ms = 0,
                          cost = 0\<rparr>)))"

text \<open>\<open>_calculate_cost\<close>: the constant \<open>0.0\<close>.\<close>

definition calculate_cost :: "LLMService \<Rightarrow> int \<Rightarrow> real" where
  "calculate_cost self n_tokens = 0"

text \<open>The chain of \<open>generate_text\<close> that picks the adapter and awaits it.\<close>

definition dispatch_adapter ::
  "LLMService \<Rightarrow> Settings \<Rightarrow> Env \<Rightarrow> GenerationRequest \<Rightarrow> log_entry list
     \<Rightarrow> (py_error + GenerationResponse) \<times> LLMService \<times> log_entry list" where
  "dispatch_adapter self st env request lg =
     (let provider = lower (llm_provider st)
      in if provider = ''huggingface'' then (generate_huggingface self st env request, self, lg)
         else if provider = ''openai'' then (generate_openai self env request, self, lg)
         else if provider = ''anthropic'' then (generate_anthropic self env request, self, lg)
         else generate_llamacpp self st env request lg)"

text \<open>
  \<open>generate_text\<close>. \<open>start_time\<close> and \<open>end_time\<close> are the two readings of
  \<open>time.time()\<close>, as reals.
\<close>

definition generate_text ::
  "LLMService \<Rightarrow> Settings \<Rightarrow> Env \<Rightarrow> GenerationRequest \<Rightarrow> real \<Rightarrow> real \<Rightarrow> log_entry list
     \<Rightarrow> (py_error + GenerationResponse) \<times> LLMService \<times> log_entry list" where
  "generate_text self st env request start_time end_time lg =
     (case dispatch_adapter self st env request lg of
        (Inl e, self', lg') \<Rightarrow> (Inl e, self', lg')
      | (Inr response, self', lg') \<Rightarrow>
          (Inr (response\<lparr>response_time_ms := py_int ((end_time - start_time) * 1000),
                          cost := calculate_cost self' (total_tokens response)\<rparr>),
           self', lg'))"

section \<open>analytics_service.py and main.py\<close>

text \<open>\<open>str\<close> of an integer, for the rate-limit key \<open>f"user:{current_user.id}"\<close>.\<close>

fun str_nat :: "nat \<Rightarrow> string" where
  "str_nat n =
     (if n < 10 then [''0123456789'' ! n]
      else str_nat (n div 10) @ [''0123456789'' ! (n mod 10)])"

declare str_nat.simps [simp del]

definition str_int :: "int \<Rightarrow> string" where
  "str_int i = (if i < 0 then CHR ''-'' # str_nat (nat (- i)) else str_nat (nat i))"

text \<open>
  A row of the table \<open>usage\<close>. The class \<open>Usage\<close> is declared outside the modelled
  files; the fields are the keyword arguments that \<open>track_usage\<close> passes to it.
\<close>

record Usage =
  usage_user_id :: int
  usage_endpoint :: string
  usage_model_used :: string
  usage_provider :: string
  usage_input_tokens :: int
  usage_output_tokens :: int
  usage_total_tokens :: int
  usage_cost_per_1k_tokens :: real
  usage_total_cost :: real
  usage_request_id :: "string option"
  usage_response_time_ms :: "int option"
  usage_status_code :: int

text \<open>The dict \<open>usage_data\<close> that the endpoint builds, with the nine keys it sets.\<close>

record usage_data =
  ud_endpoint :: string
  ud_model_used :: string
  ud_provider :: string
  ud_input_tokens :: int
  ud_output_tokens :: int
  ud_total_tokens :: int
  ud_total_cost :: real
  ud_response_time_ms :: int
  ud_status_code :: int

text \<open>
  The database session: the committed rows of \<open>usage\<close>, and what the commits and the
  refreshes to come will do (\<open>None\<close>: succeed; past the end of a list every one
  succeeds).
\<close>

record Db =
  usage_rows :: "Usage list"
  commit_outcomes :: "py_error option list"
  refresh_outcomes :: "py_error option list"

definition db_commit :: "Db \<Rightarrow> py_error option \<times> Db" where
  "db_commit d =
     (case commit_outcomes d of
        [] \<Rightarrow> (None, d)
      | r # rs \<Rightarrow> (r, d\<lparr>commit_outcomes := rs\<rparr>))"

definition db_refresh :: "Db \<Rightarrow> py_error option \<times> Db" where
  "db_refresh d =
     (case refresh_outcomes d of
        [] \<Rightarrow> (None, d)
      | r # rs \<Rightarrow> (r, d\<lparr>refresh_outcomes := rs\<rparr>))"

text \<open>
  \<open>track_usage\<close>. \<open>Usage_calculate_cost\<close> is the method \<open>Usage.calculate_cost\<close>, which
  is not among the modelled files and is taken as a parameter: it returns the row as it
  left it, or raises. The keys
  \<open>cost_per_1k_tokens\<close> and \<open>request_id\<close> are absent from the caller's dict, so
  \<open>.get\<close> yields their defaults. After \<open>db.add\<close> the source commits and then
  refreshes the row: the row is in the table once the commit succeeded, also when the
  refresh raises after it.
\<close>

definition track_usage ::
  "(Usage \<Rightarrow> py_error + Usage) \<Rightarrow> Db \<Rightarrow> int \<Rightarrow> usage_data \<Rightarrow> (py_error + Usage) \<times> Db" where
  "track_usage Usage_calculate_cost d user_id_arg ud =
     (case Usage_calculate_cost
             \<lparr>usage_user_id = user_id_arg,
              usage_endpoint = ud_endpoint ud,
              usage_model_used = ud_model_used ud,
              usage_provider = ud_provider ud,
              usage_input_tokens = ud_input_tokens ud,
              usage_output_tokens = ud_output_tokens ud,
              usage_total_tokens = ud_total_tokens ud,
              usage_cost_per_1k_tokens = 2 / 1000,
              usage_total_cost = ud_total_cost ud,
              usage_request_id = None,
              usage_response_time_ms = Some (ud_response_time_ms ud),
              usage_status_code = ud_status_code ud\<rparr> of
        Inl e \<Rightarrow> (Inl e, d)
      | Inr usage \<Rightarrow>
          (case db_commit d of
             (Some e, d') \<Rightarrow> (Inl e, d')
           | (None, d') \<Rightarrow>
               (case db_refresh (d'\<lparr>usage_rows := usage_rows d' @ [usage]\<rparr>) of
                  (Some e, d'') \<Rightarrow> (Inl e, d'')
                | (None, d'') \<Rightarrow> (Inr usage, d''))))"

record GenerateRequestBody =
  body_prompt :: string
  body_max_tokens :: int
  body_temperature :: real
  body_top_p :: real
  body_model :: "string option"
  body_stop_sequences :: "string list option"

record User =
  user_id :: int
  is_active :: bool

text \<open>The dict that the endpoint returns.\<close>

record generate_reply =
  reply_text :: string
  reply_total_tokens :: int
  reply_cost :: real
  reply_model :: string
  reply_provider :: string

text \<open>The module-level singletons and the database that a request works on.\<close>

record App =
  rate_limit_service :: RateLimitService
  llm_service :: LLMService
  db :: Db
  app_log :: "log_entry list"

text \<open>The \<open>except Exception\<close> of the endpoint: log, then status 500.\<close>

definition generation_failed :: "py_error \<Rightarrow> App \<Rightarrow> User \<Rightarrow> (py_error + generate_reply) \<times> App \<times> User" where
  "generation_failed e app u =
     (Inl (HTTPException 500 (Detail ''Generation failed'')),
      app\<lparr>app_log := app_log app @ [LogError ''Generation failed: '' e]\<rparr>, u)"

text \<open>The \<open>GenerationRequest\<close> that the endpoint builds from the body.\<close>

definition gen_request_of :: "GenerateRequestBody \<Rightarrow> GenerationRequest" where
  "gen_request_of body =
     \<lparr>prompt = body_prompt body,
      max_tokens = body_max_tokens body,
      temperature = body_temperature body,
      top_p = body_top_p body,
      model = (case body_model body of
                 None \<Rightarrow> ''default''
               | Some m \<Rightarrow> if m = [] then ''default'' else m),
      stop_sequences = body_stop_sequences body\<rparr>"

text \<open>The dict \<open>usage_data\<close> that the endpoint builds from the response.\<close>

definition usage_data_of :: "GenerationResponse \<Rightarrow> usage_data" where
  "usage_data_of response =
     \<lparr>ud_endpoint = ''/api/v1/generate'',
      ud_model_used = model_used response,
      ud_provider = provider response,
      ud_input_tokens = input_tokens response,
      ud_output_tokens = output_tokens response,
      ud_total_tokens = total_tokens response,
      ud_total_cost = cost response,
      ud_response_time_ms = response_time_ms response,
      ud_status_code = 200\<rparr>"

text \<open>
  The endpoint \<open>generate_text\<close> of \<open>main.py\<close>. \<open>User_update_usage\<close> is the method
  \<open>User.update_usage\<close>, not among the modelled files and taken as a parameter: it
  returns the user as it left it, or raises.
  \<open>now\<close> is the clock reading of the rate limiter, \<open>start_time\<close> and \<open>end_time\<close>
  those of the generation. The rate limit is enforced before the \<open>try\<close>, so what it
  raises leaves the endpoint as it is.
\<close>

definition generate_text_endpoint ::
  "(Usage \<Rightarrow> py_error + Usage) \<Rightarrow> (User \<Rightarrow> int \<Rightarrow> py_error + User) \<Rightarrow> Settings \<Rightarrow> Env \<Rightarrow> App
     \<Rightarrow> GenerateRequestBody \<Rightarrow> User \<Rightarrow> int \<Rightarrow> real \<Rightarrow> real
     \<Rightarrow> (py_error + generate_reply) \<times> App \<times> User" where
  "generate_text_endpoint Usage_calculate_cost User_update_usage st env app body current_user
       now start_time end_time =
     (case enforce_rate_limit (fromtimestamp_ok env) (rate_limit_service app) now
             (''user:'' @ str_int (user_id current_user)) None None of
        (Inl e, rl) \<Rightarrow> (Inl e, app\<lparr>rate_limit_service := rl\<rparr>, current_user)
      | (Inr info, rl) \<Rightarrow>
          (let app1 = app\<lparr>rate_limit_service := rl\<rparr>
           in case generate_text (llm_service app1) st env (gen_request_of body)
                     start_time end_time (app_log app1) of
                (Inl e, llm, lg) \<Rightarrow>
                  generation_failed e (app1\<lparr>llm_service := llm, app_log := lg\<rparr>) current_user
              | (Inr response, llm, lg) \<Rightarrow>
                  (let app2 = app1\<lparr>llm_service := llm, app_log := lg\<rparr>
                   in case track_usage Usage_calculate_cost (db app2) (user_id current_user)
                             (usage_data_of response) of
                        (Inl e, d) \<Rightarrow> generation_failed e (app2\<lparr>db := d\<rparr>) current_user
                      | (Inr usage, d) \<Rightarrow>
                          (case User_update_usage current_user (total_tokens response) of
                             Inl e \<Rightarrow> generation_failed e (app2\<lparr>db := d\<rparr>) current_user
                           | Inr user' \<Rightarrow>
                               (case db_commit d of
                                  (Some e, d') \<Rightarrow>
                                    generation_failed e (app2\<lparr>db := d'\<rparr>) current_user
                                | (None, d') \<Rightarrow>
                                    (Inr \<lparr>reply_text = gen_text response,
                                          reply_total_tokens = total_tokens response,
                                          reply_cost = cost response,
                                          reply_model = model_used response,
                                          reply_provider = provider response\<rparr>,
                                     app2\<lparr>db := d'\<rparr>, user'))))))"

section \<open>Notions used to state the properties\<close>

text \<open>
  The identifier starts a window at \<open>ws\<close>: it has no entry, or its entry is of
  another window.
\<close>

definition fresh_for :: "RateLimitService \<Rightarrow> string \<Rightarrow> int \<Rightarrow> bool" where
  "fresh_for self identifier ws =
     (case counters self identifier of None \<Rightarrow> True | Some e \<Rightarrow> window_start e \<noteq> ws)"

text \<open>
  The entry of the identifier after its first \<open>j\<close> calls in the window at \<open>ws\<close>
  under the limit \<open>lmt\<close>, and the outcome of its call number \<open>j\<close> (from 0).
\<close>

definition quota_state :: "RateLimitService \<Rightarrow> string \<Rightarrow> int \<Rightarrow> int \<Rightarrow> nat \<Rightarrow> bool" where
  "quota_state self identifier ws lmt j =
     (if j = 0 then fresh_for self identifier ws
      else counters self identifier = Some \<lparr>window_start = ws, count = min (int j) lmt\<rparr>)"

definition quota_outcome :: "int \<Rightarrow> int \<Rightarrow> int \<Rightarrow> nat \<Rightarrow> py_error + (bool \<times> rate_info)" where
  "quota_outcome lmt w ws j =
     Inr (if int j < lmt
          then (True, \<lparr>limit = lmt, remaining = lmt - 1 - int j, reset = ws + w, window = w\<rparr>)
          else (False, \<lparr>limit = lmt, remaining = 0, reset = ws + w, window = w\<rparr>))"

text \<open>
  An example run: \<open>u1\<close> calls four times within the window that starts at 120, with
  the limit 3 and the window 60, and \<open>u2\<close> calls in between with the defaults.
\<close>

definition example_calls :: "rl_call list" where
  "example_calls =
     [\<lparr>call_time = 120, call_identifier = ''u1'', call_requests = Some 3, call_window = Some 60\<rparr>,
      \<lparr>call_time = 121, call_identifier = ''u2'', call_requests = None, call_window = None\<rparr>,
      \<lparr>call_time = 130, call_identifier = ''u1'', call_requests = Some 3, call_window = Some 60\<rparr>,
      \<lparr>call_time = 150, call_identifier = ''u1'', call_requests = Some 3, call_window = Some 60\<rparr>,
      \<lparr>call_time = 179, call_identifier = ''u1'', call_requests = Some 3, call_window = Some 60\<rparr>]"

text \<open>No entry of the limiter holds a negative count.\<close>

definition counts_nonneg :: "RateLimitService \<Rightarrow> bool" where
  "counts_nonneg self = (\<forall>k e. counters self k = Some e \<longrightarrow> 0 \<le> count e)"

text \<open>A limiter in which \<open>u1\<close> has used its three requests of the window at 120.\<close>

definition exhausted_service :: RateLimitService where
  "exhausted_service =
     \<lparr>default_requests = 100, default_window = 3600,
      counters = [''u1'' \<mapsto> \<lparr>window_start = 120, count = 3\<rparr>]\<rparr>"

text \<open>The service object before \<open>_initialize_models\<close> has run.\<close>

definition blank_service :: LLMService where
  "blank_service =
     \<lparr>pipelines_default = None, llamacpp_model = None,
      anthropic_client = None, openai_key = None\<rparr>"

text \<open>The log entries that \<open>logger.warning\<close> makes.\<close>

fun is_warning :: "log_entry \<Rightarrow> bool" where
  "is_warning (LogWarning m) = True"
| "is_warning (LogInfo m) = False"
| "is_warning (LogError m e) = False"

text \<open>The provider names that the chain of \<open>_initialize_models\<close> tests for.\<close>

definition known_providers :: "string list" where
  "known_providers =
     [''huggingface'', ''openai'', ''anthropic'', ''llamacpp'', ''llama.cpp'', ''llama-cpp'']"


text \<open>
  The timestamps of the years 1 to 9999 in UTC, the range of \<open>datetime\<close> where the
  platform sets no narrower one.
\<close>

definition unix_range :: "int \<Rightarrow> bool" where
  "unix_range ts = (- 62135596800 \<le> ts \<and> ts \<le> 253402300799)"

text \<open>
  Stub backends: a llama.cpp model that answers \<open>Hello\<close> and counts one token for any
  text, an Anthropic client that reports one token in and one out, and an OpenAI
  endpoint that reports one prompt token, one completion token and the total
  \<open>reported_total\<close>.
\<close>

definition stub_llama :: Llama where
  "stub_llama =
     \<lparr>llama_tokenize = (\<lambda>s. [0]),
      llama_call = (\<lambda>p n t tp stop. Inr ''Hello'')\<rparr>"

definition stub_env :: "int \<Rightarrow> Env" where
  "stub_env reported_total =
     \<lparr>transformers_installed = False,
      openai_installed = True,
      anthropic_installed = True,
      llama_cpp_installed = True,
      path_exists = (\<lambda>p. True),
      fromtimestamp_ok = unix_range,
      hf_load = (\<lambda>m. Inl (BackendError ''no such model'')),
      Llama_new = (\<lambda>p. Inr stub_llama),
      Anthropic_new = (\<lambda>k. \<lparr>messages_create = (\<lambda>m n t tp p.
         Inr \<lparr>content_text = ''Hello'', usage_input_tokens = 1, usage_output_tokens = 1\<rparr>)\<rparr>),
      ChatCompletion_create = (\<lambda>k m p n t tp stop.
         Inr \<lparr>message_content = ''Hello'', usage_prompt_tokens = 1,
              usage_completion_tokens = 1, usage_total_tokens = reported_total\<rparr>)\<rparr>"

definition stub_request :: GenerationRequest where
  "stub_request =
     \<lparr>prompt = ''Hi'', max_tokens = 10, temperature = 7 / 10, top_p = 9 / 10,
      model = ''default'', stop_sequences = None\<rparr>"

text \<open>
  What the stub llama.cpp model makes \<open>generate_text\<close> return for that request under
  the default model path, between the clock readings 0 and 1.
\<close>

definition hello_response :: GenerationResponse where
  "hello_response =
     \<lparr>gen_text = ''Hello'', input_tokens = 1, output_tokens = 1, total_tokens = 2,
      model_used = ''TinyLlama-1.1B-Chat-v1.0.Q4_K_M.gguf'', provider = ''llamacpp'',
      response_time_ms = 1000, cost = 0\<rparr>"

text \<open>Startup followed by one generation: the constructor, then \<open>generate_text\<close>.\<close>

definition init_then_generate ::
  "Settings \<Rightarrow> Env \<Rightarrow> GenerationRequest \<Rightarrow> real \<Rightarrow> real
     \<Rightarrow> (py_error + GenerationResponse) \<times> log_entry list" where
  "init_then_generate st env request start_time end_time =
     (case LLMService_init st env of
        (Inl e, lg) \<Rightarrow> (Inl e, lg)
      | (Inr self, lg) \<Rightarrow>
          (case generate_text self st env request start_time end_time lg of
             (r, self', lg') \<Rightarrow> (r, lg')))"

text \<open>
  Example configurations: a price of 2 per thousand tokens, the OpenAI provider with a
  key, a service whose llama.cpp model is loaded, and an environment in which the model
  file does not exist.
\<close>

definition priced_settings :: Settings where
  "priced_settings = default_settings\<lparr>price_per_1k_tokens := 2\<rparr>"

definition openai_settings :: Settings where
  "openai_settings =
     default_settings\<lparr>llm_provider := ''openai'', openai_api_key := Some ''sk-test''\<rparr>"

definition loaded_service :: LLMService where
  "loaded_service =
     \<lparr>pipelines_default = None, llamacpp_model = Some stub_llama,
      anthropic_client = None, openai_key = None\<rparr>"


text \<open>
  An example request: the body, the user, and the application state with a loaded
  llama.cpp model, an empty table and the given outcomes of the commits to come; in
  \<open>denied_app\<close> the user has used the one request of the window, and in
  \<open>refresh_failing_app\<close> the first refresh raises.
\<close>

definition stub_body :: GenerateRequestBody where
  "stub_body =
     \<lparr>body_prompt = ''Hi'', body_max_tokens = 10, body_temperature = 7 / 10,
      body_top_p = 9 / 10, body_model = None, body_stop_sequences = None\<rparr>"

definition stub_user :: User where
  "stub_user = \<lparr>user_id = 7, is_active = True\<rparr>"

definition stub_app :: "py_error option list \<Rightarrow> App" where
  "stub_app outcomes =
     \<lparr>rate_limit_service = RateLimitService_init 100 3600,
      llm_service = loaded_service,
      db = \<lparr>usage_rows = [], commit_outcomes = outcomes, refresh_outcomes = []\<rparr>,
      app_log = []\<rparr>"

definition refresh_failing_app :: App where
  "refresh_failing_app =
     (stub_app [])\<lparr>db :=
        \<lparr>usage_rows = [], commit_outcomes = [],
         refresh_outcomes = [Some (StorageError ''connection lost'')]\<rparr>\<rparr>"

definition denied_app :: App where
  "denied_app =
     (stub_app [])\<lparr>rate_limit_service :=
        \<lparr>default_requests = 1, default_window = 3600,
         counters = [''user:7'' \<mapsto> \<lparr>window_start = 0, count = 1\<rparr>]\<rparr>\<rparr>"

section \<open>The fixed window of the rate limiter\<close>

lemma check_rate_limit_other:
  "check_rate_limit ts_ok self t k r w = (res, self') \<Longrightarrow> k \<noteq> identifier
     \<Longrightarrow> counters self' identifier = counters self identifier"
  by (auto simp: check_rate_limit_def get_window_start_def Let_def
           split: if_splits option.splits)

lemma check_rate_limit_fresh:
  assumes "0 < lmt" "w \<noteq> 0" "fresh_for self identifier ((t div w) * w)"
    and "ts_ok ((t div w) * w + w)"
  shows "check_rate_limit ts_ok self t identifier (Some lmt) (Some w) =
           (Inr (True, \<lparr>limit = lmt, remaining = lmt - 1, reset = (t div w) * w + w,
                        window = w\<rparr>),
            self\<lparr>counters := (counters self)(identifier \<mapsto>
                   \<lparr>window_start = (t div w) * w, count = 1\<rparr>)\<rparr>)"
  using assms
  by (auto simp: check_rate_limit_def get_window_start_def Let_def fresh_for_def
           split: option.splits)

lemma check_rate_limit_below:
  assumes "w \<noteq> 0"
    and "counters self identifier = Some \<lparr>window_start = (t div w) * w, count = c\<rparr>"
    and "c < lmt" "0 \<le> c"
    and "ts_ok ((t div w) * w + w)"
  shows "check_rate_limit ts_ok self t identifier (Some lmt) (Some w) =
           (Inr (True, \<lparr>limit = lmt, remaining = lmt - (c + 1), reset = (t div w) * w + w,
                        window = w\<rparr>),
            self\<lparr>counters := (counters self)(identifier \<mapsto>
                   \<lparr>window_start = (t div w) * w, count = c + 1\<rparr>)\<rparr>)"
  using assms by (auto simp: check_rate_limit_def get_window_start_def Let_def)

lemma check_rate_limit_full:
  assumes "w \<noteq> 0"
    and "counters self identifier = Some \<lparr>window_start = (t div w) * w, count = c\<rparr>"
    and "lmt \<le> c"
    and "ts_ok ((t div w) * w + w)"
  shows "check_rate_limit ts_ok self t identifier (Some lmt) (Some w) =
           (Inr (False, \<lparr>limit = lmt, remaining = 0, reset = (t div w) * w + w,
                         window = w\<rparr>),
            self)"
  using assms by (auto simp: check_rate_limit_def get_window_start_def Let_def)

lemma check_quota_step:
  assumes "0 < lmt" "w \<noteq> 0" "(t div w) * w = ws" "quota_state self identifier ws lmt j"
    and "ts_ok (ws + w)"
  shows "\<exists>r self'. check_rate_limit ts_ok self t identifier (Some lmt) (Some w) = (r, self')
           \<and> r = quota_outcome lmt w ws j \<and> quota_state self' identifier ws lmt (Suc j)"
proof (cases "j = 0")
  case True
  with assms have "fresh_for self identifier ((t div w) * w)"
    by (simp add: quota_state_def)
  moreover from assms have "ts_ok ((t div w) * w + w)" by simp
  ultimately show ?thesis
    using check_rate_limit_fresh[where ts_ok = ts_ok, OF assms(1,2)] assms(1,3) True
    by (auto simp: quota_outcome_def quota_state_def)
next
  case False
  with assms have e: "counters self identifier =
      Some \<lparr>window_start = (t div w) * w, count = min (int j) lmt\<rparr>"
    by (simp add: quota_state_def)
  from assms have ok: "ts_ok ((t div w) * w + w)" by simp
  show ?thesis
  proof (cases "int j < lmt")
    case True
    then have m: "min (int j) lmt = int j" by simp
    from check_rate_limit_below[where ts_ok = ts_ok, OF assms(2) e[unfolded m] True _ ok]
      assms(3) True
    show ?thesis
      by (auto simp: quota_outcome_def quota_state_def min_def)
  next
    case False
    then have m: "min (int j) lmt = lmt" by simp
    from check_rate_limit_full[where ts_ok = ts_ok, OF assms(2) e[unfolded m] _ ok]
      assms(3) False e
    show ?thesis
      by (auto simp: quota_outcome_def quota_state_def min_def)
  qed
qed

lemma check_other_quota:
  assumes "check_rate_limit ts_ok self t k r w = (res, self')" "k \<noteq> identifier"
    and "quota_state self identifier ws lmt j"
  shows "quota_state self' identifier ws lmt j"
  using check_rate_limit_other[OF assms(1,2)] assms(3)
  by (auto simp: quota_state_def fresh_for_def)

lemma fst_run_checks_Cons:
  "fst (run_checks ts_ok self (c # cs)) =
     (case check_rate_limit ts_ok self (call_time c) (call_identifier c) (call_requests c)
             (call_window c) of
        (r, self1) \<Rightarrow> r # fst (run_checks ts_ok self1 cs))"
  by (simp split: prod.splits)

lemma snd_run_checks_Cons:
  "snd (run_checks ts_ok self (c # cs)) =
     (case check_rate_limit ts_ok self (call_time c) (call_identifier c) (call_requests c)
             (call_window c) of
        (r, self1) \<Rightarrow> snd (run_checks ts_ok self1 cs))"
  by (simp split: prod.splits)

lemma outcomes_for_Cons:
  "outcomes_for identifier (c # cs) (r # rs) =
     (if call_identifier c = identifier then r # outcomes_for identifier cs rs
      else outcomes_for identifier cs rs)"
  by (simp add: outcomes_for_def)

lemma run_checks_quota:
  assumes "0 < lmt" "w \<noteq> 0" "ts_ok (ws + w)"
    and "\<forall>c \<in> set calls. call_identifier c = identifier \<longrightarrow>
           call_requests c = Some lmt \<and> call_window c = Some w \<and> (call_time c div w) * w = ws"
    and "quota_state self identifier ws lmt j"
  shows "outcomes_for identifier calls (fst (run_checks ts_ok self calls)) =
           map (\<lambda>i. quota_outcome lmt w ws (j + i))
             [0..<length (filter (\<lambda>c. call_identifier c = identifier) calls)]"
  using assms(4,5)
proof (induction calls arbitrary: self j)
  case Nil
  then show ?case by (simp add: outcomes_for_def)
next
  case (Cons c cs)
  from Cons.prems have rest: "\<forall>c \<in> set cs. call_identifier c = identifier \<longrightarrow>
      call_requests c = Some lmt \<and> call_window c = Some w \<and> (call_time c div w) * w = ws"
    by simp
  show ?case
  proof (cases "call_identifier c = identifier")
    case True
    with Cons.prems have p: "call_requests c = Some lmt" "call_window c = Some w"
      "(call_time c div w) * w = ws" by auto
    from check_quota_step[where ts_ok = ts_ok, OF assms(1,2) p(3) Cons.prems(2) assms(3)]
    obtain r self' where
      s: "check_rate_limit ts_ok self (call_time c) identifier (Some lmt) (Some w) = (r, self')"
         "r = quota_outcome lmt w ws j" "quota_state self' identifier ws lmt (Suc j)"
      by blast
    have ih: "outcomes_for identifier cs (fst (run_checks ts_ok self' cs)) =
        map (\<lambda>i. quota_outcome lmt w ws (Suc j + i))
          [0..<length (filter (\<lambda>c. call_identifier c = identifier) cs)]"
      by (rule Cons.IH[OF rest s(3)])
    have "outcomes_for identifier (c # cs) (fst (run_checks ts_ok self (c # cs))) =
        r # outcomes_for identifier cs (fst (run_checks ts_ok self' cs))"
      using True p s(1)
      by (simp add: outcomes_for_Cons fst_run_checks_Cons del: run_checks.simps)
    also have "\<dots> = quota_outcome lmt w ws j #
        map (\<lambda>i. quota_outcome lmt w ws (Suc j + i))
          [0..<length (filter (\<lambda>c. call_identifier c = identifier) cs)]"
      using ih s(2) by simp
    also have "\<dots> = map (\<lambda>i. quota_outcome lmt w ws (j + i))
        [0..<length (filter (\<lambda>c. call_identifier c = identifier) (c # cs))]"
      using True by (simp add: map_upt_Suc del: upt_Suc)
    finally show ?thesis .
  next
    case False
    obtain r self' where pp: "check_rate_limit ts_ok self (call_time c) (call_identifier c)
        (call_requests c) (call_window c) = (r, self')"
      by (cases "check_rate_limit ts_ok self (call_time c) (call_identifier c)
        (call_requests c) (call_window c)")
    from check_other_quota[OF pp False Cons.prems(2)]
    have "quota_state self' identifier ws lmt j" .
    from Cons.IH[OF rest this] show ?thesis using False pp
      by (simp add: outcomes_for_Cons fst_run_checks_Cons del: run_checks.simps)
  qed
qed

text \<open>
  Claim C1. Take any sequence of calls of \<open>check_rate_limit\<close>, by any callers, in which
  every call of one identifier passes the same limit \<open>lmt > 0\<close> and the same window
  \<open>w\<close> and falls into the same aligned window, starting at \<open>ws\<close>, whose end
  \<open>ws + w\<close> is a timestamp that \<open>fromtimestamp\<close> accepts, and let the identifier
  have no entry of that window before. Then its calls number \<open>0, ..., lmt - 1\<close> are
  allowed, with \<open>remaining\<close> going down from \<open>lmt - 1\<close> to \<open>0\<close>, and its call
  number \<open>lmt\<close> (as every later one) is denied with \<open>remaining\<close> \<open>0\<close>; every
  decision carries \<open>reset = ws + w\<close>.
\<close>

theorem check_rate_limit_window_quota:
  assumes "0 < lmt" and "w \<noteq> 0" and "ts_ok (ws + w)"
    and "fresh_for self identifier ws"
    and "\<forall>c \<in> set calls. call_identifier c = identifier \<longrightarrow>
           call_requests c = Some lmt \<and> call_window c = Some w \<and>
           get_window_start (call_time c) w = Inr ws"
  shows "outcomes_for identifier calls (fst (run_checks ts_ok self calls)) =
           map (\<lambda>i. Inr (if int i < lmt
                          then (True, \<lparr>limit = lmt, remaining = lmt - 1 - int i,
                                       reset = ws + w, window = w\<rparr>)
                          else (False, \<lparr>limit = lmt, remaining = 0,
                                        reset = ws + w, window = w\<rparr>)))
             [0..<length (filter (\<lambda>c. call_identifier c = identifier) calls)]"
proof -
  from assms(2,5) have a: "\<forall>c \<in> set calls. call_identifier c = identifier \<longrightarrow>
      call_requests c = Some lmt \<and> call_window c = Some w \<and> (call_time c div w) * w = ws"
    by (simp add: get_window_start_def)
  from assms(4) have q: "quota_state self identifier ws lmt 0"
    by (simp add: quota_state_def)
  from run_checks_quota[where ts_ok = ts_ok, OF assms(1,2,3) a q] show ?thesis
    by (simp add: quota_outcome_def)
qed

theorem check_rate_limit_window_quota_witness:
  "outcomes_for ''u1'' example_calls
     (fst (run_checks unix_range (RateLimitService_init 100 3600) example_calls)) =
   [Inr (True, \<lparr>limit = 3, remaining = 2, reset = 180, window = 60\<rparr>),
    Inr (True, \<lparr>limit = 3, remaining = 1, reset = 180, window = 60\<rparr>),
    Inr (True, \<lparr>limit = 3, remaining = 0, reset = 180, window = 60\<rparr>),
    Inr (False, \<lparr>limit = 3, remaining = 0, reset = 180, window = 60\<rparr>)]"
  using check_rate_limit_window_quota[of 3 60 unix_range 120 "RateLimitService_init 100 3600"
          "''u1''" example_calls]
  by (simp add: example_calls_def fresh_for_def RateLimitService_init_def get_window_start_def
        unix_range_def upt_rec)

lemma window_start_advances:
  assumes "0 < w" "w \<le> d"
  shows "((t + d) div w) * w \<noteq> (t div w) * (w::int)"
proof -
  have "(t + w) div w = t div w + 1" using assms(1) by simp
  moreover have "(t + w) div w \<le> (t + d) div w"
    using assms by (intro zdiv_mono1) auto
  ultimately have "t div w < (t + d) div w" by simp
  with assms(1) show ?thesis by simp
qed

text \<open>
  Claim C8. When the identifier's stored entry is of another window than the current
  aligned one (which is so once the clock has advanced by the window or more), the
  next call with a limit \<open>lmt > 0\<close> is allowed and reports \<open>remaining = lmt - 1\<close>:
  whatever count the old entry held is replaced by the count 1 of the new window. The
  end of the window is a timestamp that \<open>fromtimestamp\<close> accepts.
\<close>

theorem check_rate_limit_new_window:
  assumes "0 < lmt"
    and "counters self identifier = Some e"
    and "get_window_start t w = Inr ws"
    and "window_start e \<noteq> ws"
    and "ts_ok (ws + w)"
  shows "check_rate_limit ts_ok self t identifier (Some lmt) (Some w) =
           (Inr (True, \<lparr>limit = lmt, remaining = lmt - 1, reset = ws + w, window = w\<rparr>),
            self\<lparr>counters := (counters self)(identifier \<mapsto>
                   \<lparr>window_start = ws, count = 1\<rparr>)\<rparr>)"
proof -
  from assms(3) have w: "w \<noteq> 0" and ws: "ws = (t div w) * w"
    by (auto simp: get_window_start_def split: if_splits)
  from assms(2,4) have "fresh_for self identifier ((t div w) * w)"
    by (simp add: fresh_for_def ws)
  moreover from assms(5) have "ts_ok ((t div w) * w + w)" by (simp add: ws)
  ultimately show ?thesis
    using check_rate_limit_fresh[where ts_ok = ts_ok, OF assms(1) w] by (simp add: ws)
qed

theorem check_rate_limit_new_window_witness:
  "check_rate_limit unix_range exhausted_service 240 ''u1'' (Some 3) (Some 60) =
     (Inr (True, \<lparr>limit = 3, remaining = 2, reset = 300, window = 60\<rparr>),
      exhausted_service\<lparr>counters := (counters exhausted_service)(''u1'' \<mapsto>
        \<lparr>window_start = 240, count = 1\<rparr>)\<rparr>)"
  using check_rate_limit_new_window[of 3 exhausted_service "''u1''"
          "\<lparr>window_start = 120, count = 3\<rparr>" 240 60 240 unix_range]
  by (simp add: exhausted_service_def get_window_start_def unix_range_def)

text \<open>
  The same after a clock advance: an entry made at \<open>t0\<close> is of another window at any
  \<open>t \<ge> t0 + w\<close>.
\<close>

lemma check_rate_limit_after_advance:
  assumes "0 < lmt" "0 < w"
    and "counters self identifier = Some e"
    and "window_start e = (t0 div w) * w"
    and "w \<le> d"
    and "ts_ok (((t0 + d) div w) * w + w)"
  shows "check_rate_limit ts_ok self (t0 + d) identifier (Some lmt) (Some w) =
           (Inr (True, \<lparr>limit = lmt, remaining = lmt - 1,
                        reset = ((t0 + d) div w) * w + w, window = w\<rparr>),
            self\<lparr>counters := (counters self)(identifier \<mapsto>
                   \<lparr>window_start = ((t0 + d) div w) * w, count = 1\<rparr>)\<rparr>)"
proof -
  from window_start_advances[OF assms(2,5), of t0] assms(3,4)
  have "fresh_for self identifier (((t0 + d) div w) * w)"
    by (simp add: fresh_for_def)
  moreover from assms(2) have "w \<noteq> 0" by simp
  ultimately show ?thesis
    using check_rate_limit_fresh[where ts_ok = ts_ok, OF assms(1) _ _ assms(6)] by blast
qed

section \<open>Limits that admit nothing\<close>

lemma check_rate_limit_counts_nonneg:
  assumes "counts_nonneg self" "check_rate_limit ts_ok self t k r w = (res, self')"
  shows "counts_nonneg self'"
  using assms
  by (auto simp: counts_nonneg_def check_rate_limit_def get_window_start_def Let_def
           split: if_splits option.splits)

lemma run_checks_counts_nonneg:
  "counts_nonneg self \<Longrightarrow> counts_nonneg (snd (run_checks ts_ok self calls))"
proof (induction calls arbitrary: self)
  case Nil
  then show ?case by simp
next
  case (Cons c cs)
  obtain r self' where pp: "check_rate_limit ts_ok self (call_time c) (call_identifier c)
      (call_requests c) (call_window c) = (r, self')"
    by (cases "check_rate_limit ts_ok self (call_time c) (call_identifier c)
      (call_requests c) (call_window c)")
  from check_rate_limit_counts_nonneg[OF Cons.prems pp]
  have "counts_nonneg self'" .
  from Cons.IH[OF this] show ?case using pp
    by (simp add: snd_run_checks_Cons del: run_checks.simps)
qed

lemma check_rate_limit_denies_nonpositive:
  assumes "counts_nonneg self" "lmt \<le> 0" "w \<noteq> 0" "ts_ok ((t div w) * w + w)"
  shows "\<exists>self'. check_rate_limit ts_ok self t identifier (Some lmt) (Some w) =
           (Inr (False, \<lparr>limit = lmt, remaining = 0, reset = (t div w) * w + w,
                         window = w\<rparr>),
            self')"
proof (cases "fresh_for self identifier ((t div w) * w)")
  case True
  then show ?thesis using assms(2,3,4)
    by (auto simp: check_rate_limit_def get_window_start_def Let_def fresh_for_def
             split: option.splits)
next
  case False
  then obtain e where e: "counters self identifier = Some e" "window_start e = (t div w) * w"
    by (auto simp: fresh_for_def split: option.splits)
  with assms(1) have "0 \<le> count e" by (auto simp: counts_nonneg_def)
  with e assms(2,3,4) show ?thesis
    by (auto simp: check_rate_limit_def get_window_start_def Let_def)
qed

text \<open>
  Claim C10. On a limiter in any state that calls of \<open>check_rate_limit\<close> can bring
  about from the constructor's, a call with a limit \<open>lmt \<le> 0\<close> is denied with
  \<open>remaining = 0\<close>, the first call of a fresh window included: the count, reset to 0
  or not, is at least the limit. The end of the window is a timestamp that
  \<open>fromtimestamp\<close> accepts.
\<close>

theorem check_rate_limit_nonpositive_limit:
  assumes "lmt \<le> 0" and "get_window_start t w = Inr ws" and "ts_ok (ws + w)"
  shows "\<exists>self'. check_rate_limit ts_ok
                    (snd (run_checks ts_ok' (RateLimitService_init r0 w0) calls))
                    t identifier (Some lmt) (Some w) =
           (Inr (False, \<lparr>limit = lmt, remaining = 0, reset = ws + w, window = w\<rparr>), self')"
proof -
  from assms(2) have w: "w \<noteq> 0" and ws: "ws = (t div w) * w"
    by (auto simp: get_window_start_def split: if_splits)
  have "counts_nonneg (RateLimitService_init r0 w0)"
    by (simp add: counts_nonneg_def RateLimitService_init_def)
  then have "counts_nonneg (snd (run_checks ts_ok' (RateLimitService_init r0 w0) calls))"
    by (rule run_checks_counts_nonneg)
  moreover from assms(3) have "ts_ok ((t div w) * w + w)" by (simp add: ws)
  ultimately show ?thesis
    using check_rate_limit_denies_nonpositive[where ts_ok = ts_ok, OF _ assms(1) w]
    by (simp add: ws)
qed

theorem check_rate_limit_nonpositive_limit_witness:
  "\<exists>self'. check_rate_limit unix_range (RateLimitService_init 100 3600) 120 ''u1''
              (Some 0) (Some 60) =
     (Inr (False, \<lparr>limit = 0, remaining = 0, reset = 180, window = 60\<rparr>), self')"
  using check_rate_limit_nonpositive_limit[of 0 120 60 120 unix_range unix_range 100 3600 "[]"
          "''u1''"]
  by (simp add: get_window_start_def unix_range_def)

text \<open>
  The scenario of the specification: limit 3, window 60, four calls of \<open>u1\<close> in one
  window and a fifth one 61 seconds after the fourth.
\<close>

lemma spec_scenario:
  "fst (run_checks unix_range (RateLimitService_init 100 3600)
     [\<lparr>call_time = 120, call_identifier = ''u1'', call_requests = Some 3, call_window = Some 60\<rparr>,
      \<lparr>call_time = 130, call_identifier = ''u1'', call_requests = Some 3, call_window = Some 60\<rparr>,
      \<lparr>call_time = 150, call_identifier = ''u1'', call_requests = Some 3, call_window = Some 60\<rparr>,
      \<lparr>call_time = 179, call_identifier = ''u1'', call_requests = Some 3, call_window = Some 60\<rparr>,
      \<lparr>call_time = 240, call_identifier = ''u1'', call_requests = Some 3, call_window = Some 60\<rparr>]) =
   [Inr (True, \<lparr>limit = 3, remaining = 2, reset = 180, window = 60\<rparr>),
    Inr (True, \<lparr>limit = 3, remaining = 1, reset = 180, window = 60\<rparr>),
    Inr (True, \<lparr>limit = 3, remaining = 0, reset = 180, window = 60\<rparr>),
    Inr (False, \<lparr>limit = 3, remaining = 0, reset = 180, window = 60\<rparr>),
    Inr (True, \<lparr>limit = 3, remaining = 2, reset = 300, window = 60\<rparr>)]"
  by (simp add: check_rate_limit_def RateLimitService_init_def get_window_start_def Let_def
        unix_range_def)

text \<open>
  Outside the range of \<open>fromtimestamp\<close> the call raises after it has counted the
  request.
\<close>

lemma check_rate_limit_out_of_range:
  "check_rate_limit unix_range (RateLimitService_init 100 3600) 120 ''u1''
     (Some 3) (Some 1000000000000) =
   (Inl OverflowError,
    \<lparr>default_requests = 100, default_window = 3600,
     counters = [''u1'' \<mapsto> \<lparr>window_start = 0, count = 1\<rparr>]\<rparr>)"
  by (simp add: check_rate_limit_def RateLimitService_init_def get_window_start_def Let_def
        unix_range_def)

section \<open>Token accounting and cost of generate_text\<close>

lemmas llm_eval_defs =
  init_then_generate_def LLMService_init_def initialize_models_def
  initialize_models_try_def initialize_openai_def initialize_anthropic_def
  load_llamacpp_model_def load_huggingface_model_def default_settings_def stub_env_def
  stub_request_def stub_llama_def generate_text_def dispatch_adapter_def generate_openai_def
  generate_anthropic_def generate_llamacpp_def generate_huggingface_def
  lower_def lower_char_def py_int_def calculate_cost_def Let_def strip_def isspace_def
  basename_def model_not_found_def blank_service_def

lemma generate_llamacpp_total:
  "generate_llamacpp self st env request lg = (Inr r, self', lg')
     \<Longrightarrow> total_tokens r = input_tokens r + output_tokens r"
  by (auto simp: generate_llamacpp_def Let_def
           split: if_splits sum.splits option.splits prod.splits)

lemma generate_huggingface_total:
  "generate_huggingface self st env request = Inr r
     \<Longrightarrow> total_tokens r = input_tokens r + output_tokens r"
  by (auto simp: generate_huggingface_def Let_def split: if_splits sum.splits option.splits)

lemma generate_anthropic_total:
  "generate_anthropic self env request = Inr r
     \<Longrightarrow> total_tokens r = input_tokens r + output_tokens r"
  by (auto simp: generate_anthropic_def Let_def split: if_splits sum.splits option.splits)

lemma generate_text_Inr:
  "generate_text self st env request t0 t1 lg = (Inr r, self', lg') \<longleftrightarrow>
     (\<exists>resp. dispatch_adapter self st env request lg = (Inr resp, self', lg') \<and>
        r = resp\<lparr>response_time_ms := py_int ((t1 - t0) * 1000),
                  cost := calculate_cost self' (total_tokens resp)\<rparr>)"
  by (auto simp: generate_text_def split: prod.splits sum.splits)

text \<open>
  On the llama.cpp, Hugging Face and Anthropic branches the adapter adds the two counts
  itself, so a successful \<open>generate_text\<close> returns their sum as the total.
\<close>

lemma generate_text_total_tokens_sum:
  assumes "generate_text self st env request t0 t1 lg = (Inr r, self', lg')"
    and "lower (llm_provider st) \<noteq> ''openai''"
  shows "total_tokens r = input_tokens r + output_tokens r"
proof -
  from assms(1) obtain resp where
    d: "dispatch_adapter self st env request lg = (Inr resp, self', lg')" and
    r: "r = resp\<lparr>response_time_ms := py_int ((t1 - t0) * 1000),
                  cost := calculate_cost self' (total_tokens resp)\<rparr>"
    by (auto simp: generate_text_Inr)
  from d assms(2) have "total_tokens resp = input_tokens resp + output_tokens resp"
    by (auto simp: dispatch_adapter_def Let_def
             dest: generate_llamacpp_total generate_huggingface_total generate_anthropic_total
             split: if_splits)
  with r show ?thesis by simp
qed

text \<open>
  Claim C2. A successful \<open>generate_text\<close> is to return \<open>total_tokens = input_tokens +
  output_tokens\<close> on every provider branch. The OpenAI branch copies the three numbers
  of the provider's \<open>usage\<close>, the total included, and adds nothing: on a completion
  whose usage reports 1 prompt token, 1 completion token and the total 3, startup and
  one generation return the counts 1 and 1 with the total 3.
\<close>

theorem generate_text_openai_total_not_sum:
  "init_then_generate openai_settings (stub_env 3) stub_request 0 1 =
     (Inr \<lparr>gen_text = ''Hello'', input_tokens = 1, output_tokens = 1, total_tokens = 3,
           model_used = ''default'', provider = ''openai'', response_time_ms = 1000,
           cost = 0\<rparr>,
      [LogInfo ''OpenAI client initialized''])"
  by (simp add: llm_eval_defs openai_settings_def)

lemma loaded_generate:
  "generate_text loaded_service priced_settings (stub_env 2) stub_request 0 1 [] =
     (Inr \<lparr>gen_text = ''Hello'', input_tokens = 1, output_tokens = 1, total_tokens = 2,
           model_used = ''TinyLlama-1.1B-Chat-v1.0.Q4_K_M.gguf'', provider = ''llamacpp'',
           response_time_ms = 1000, cost = 0\<rparr>, loaded_service, [])"
  by (simp add: llm_eval_defs priced_settings_def loaded_service_def)

text \<open>
  Claim C3, as the code has it. The cost of every successful \<open>generate_text\<close> is 0,
  whatever the token count and whatever price per thousand tokens is configured; it
  equals \<open>(total_tokens / 1000) * price_per_1k_tokens\<close> exactly when the total or the
  price is 0.
\<close>

theorem generate_text_cost_zero:
  assumes "generate_text self st env request t0 t1 lg = (Inr r, self', lg')"
  shows "cost r = 0 \<and>
         (cost r = real_of_int (total_tokens r) / 1000 * price_per_1k_tokens st
            \<longleftrightarrow> total_tokens r = 0 \<or> price_per_1k_tokens st = 0)"
  using assms by (auto simp: generate_text_Inr calculate_cost_def)

theorem generate_text_cost_zero_witness:
  "\<exists>r self' lg'.
     generate_text loaded_service priced_settings (stub_env 2) stub_request 0 1 [] =
       (Inr r, self', lg')
     \<and> total_tokens r = 2 \<and> price_per_1k_tokens priced_settings = 2 \<and> cost r = 0"
  using generate_text_cost_zero[OF loaded_generate] loaded_generate
  by (simp add: priced_settings_def)

text \<open>
  Claim C3 as stated fails: with the price 2 per thousand tokens and a generation of 2
  tokens in all, the cost returned is 0 and not \<open>2 / 1000 * 2\<close>.
\<close>

theorem generate_text_cost_not_rate_counterexample:
  "fst (init_then_generate priced_settings (stub_env 2) stub_request 0 1) = Inr hello_response
   \<and> total_tokens hello_response = 2
   \<and> price_per_1k_tokens priced_settings = 2
   \<and> cost hello_response \<noteq>
       real_of_int (total_tokens hello_response) / 1000 * price_per_1k_tokens priced_settings"
  by (simp add: llm_eval_defs priced_settings_def hello_response_def)

text \<open>
  Claim C9, as the code has it. \<open>generate_text\<close> sets the latency from its own two
  clock readings and the cost from \<open>_calculate_cost\<close>, over whatever the adapter put
  into these fields; the total, the two counts, the text, the model and the provider
  are those of the adapter's response, unchanged.
\<close>

theorem generate_text_derived_fields:
  assumes "generate_text self st env request t0 t1 lg = (Inr r, self', lg')"
  shows "\<exists>resp. dispatch_adapter self st env request lg = (Inr resp, self', lg')
           \<and> r = resp\<lparr>response_time_ms := py_int ((t1 - t0) * 1000),
                        cost := calculate_cost self' (total_tokens resp)\<rparr>
           \<and> response_time_ms r = py_int ((t1 - t0) * 1000)
           \<and> cost r = calculate_cost self' (total_tokens resp)
           \<and> total_tokens r = total_tokens resp"
  using assms by (auto simp: generate_text_Inr)

theorem generate_text_derived_fields_witness:
  "\<exists>resp. dispatch_adapter loaded_service priced_settings (stub_env 2) stub_request [] =
             (Inr resp, loaded_service, [])
           \<and> py_int ((1 - 0) * 1000) = 1000
           \<and> calculate_cost loaded_service (total_tokens resp) = 0
           \<and> total_tokens resp = 2"
  using generate_text_derived_fields[OF loaded_generate]
  by (auto simp: py_int_def calculate_cost_def)

text \<open>
  Claim C9 as stated fails for the total: two OpenAI completions that differ in nothing
  but the total their usage reports (3 and 7, for 1 prompt and 1 completion token) give
  results with the totals 3 and 7.
\<close>

theorem generate_text_total_from_adapter_counterexample:
  "fst (generate_text blank_service openai_settings (stub_env 3) stub_request 0 1 []) =
     Inr \<lparr>gen_text = ''Hello'', input_tokens = 1, output_tokens = 1, total_tokens = 3,
          model_used = ''default'', provider = ''openai'', response_time_ms = 1000, cost = 0\<rparr>
   \<and> fst (generate_text blank_service openai_settings (stub_env 7) stub_request 0 1 []) =
     Inr \<lparr>gen_text = ''Hello'', input_tokens = 1, output_tokens = 1, total_tokens = 7,
          model_used = ''default'', provider = ''openai'', response_time_ms = 1000, cost = 0\<rparr>"
  by (simp add: llm_eval_defs openai_settings_def)

section \<open>Startup and the resolution of the provider\<close>

lemma LLMService_init_never_raises:
  "\<exists>self. fst (LLMService_init st env) = Inr self"
  by (auto simp: LLMService_init_def initialize_models_def split: prod.splits sum.splits)






lemma load_llamacpp_model_log:
  "load_llamacpp_model self st env lg =
     (case load_llamacpp_model self st env [] of (r, l) \<Rightarrow> (r, lg @ l))"
  by (simp add: load_llamacpp_model_def Let_def split: option.splits sum.splits)

lemma load_llamacpp_model_provider:
  "load_llamacpp_model self (st\<lparr>llm_provider := p\<rparr>) env lg =
     load_llamacpp_model self st env lg"
  by (simp add: load_llamacpp_model_def)

lemma generate_llamacpp_provider:
  "generate_llamacpp self (st\<lparr>llm_provider := p\<rparr>) env request lg =
     generate_llamacpp self st env request lg"
  by (simp add: generate_llamacpp_def load_llamacpp_model_provider Let_def
        cong: option.case_cong sum.case_cong prod.case_cong if_cong)

lemma lower_llamacpp: "lower ''llamacpp'' = ''llamacpp''"
  by (simp add: lower_def lower_char_def)

text \<open>
  The loader and \<open>generate_text\<close> only append to the log, and no warning is among
  what they append.
\<close>

lemma load_llamacpp_model_extends:
  "\<exists>l. snd (load_llamacpp_model self st env lg) = lg @ l \<and> filter is_warning l = []"
  by (auto simp: load_llamacpp_model_def Let_def split: option.splits sum.splits)

lemma generate_llamacpp_extends:
  "\<exists>l. snd (snd (generate_llamacpp self st env request lg)) = lg @ l
        \<and> filter is_warning l = []"
proof (cases "llamacpp_model self = None")
  case True
  obtain r lg' where l: "load_llamacpp_model self st env lg = (r, lg')"
    by (cases "load_llamacpp_model self st env lg")
  with load_llamacpp_model_extends[of self st env lg] obtain l0 where
    "lg' = lg @ l0" "filter is_warning l0 = []" by auto
  with True l show ?thesis
    by (auto simp: generate_llamacpp_def Let_def split: sum.splits option.splits)
next
  case False
  then show ?thesis
    by (auto simp: generate_llamacpp_def Let_def split: sum.splits option.splits)
qed

lemma generate_text_extends:
  "\<exists>l. snd (snd (generate_text self st env request t0 t1 lg)) = lg @ l
        \<and> filter is_warning l = []"
proof -
  have "\<exists>l. snd (snd (dispatch_adapter self st env request lg)) = lg @ l
          \<and> filter is_warning l = []"
    using generate_llamacpp_extends[of self st env request lg]
    by (auto simp: dispatch_adapter_def Let_def)
  then show ?thesis
    by (auto simp: generate_text_def split: prod.splits sum.splits)
qed

text \<open>
  Claim C6, as the code has it. Let the configured provider name, in lower case, be none
  of the known names. Then the constructor does what it does for \<open>llamacpp\<close> after
  logging the warning that names the provider, and does not raise; \<open>generate_text\<close>
  does what it does for \<open>llamacpp\<close>, result, service and log alike, and logs no
  warning: what it appends to the log holds none.
\<close>

theorem unknown_provider_falls_back:
  assumes "lower (llm_provider st) \<notin> set known_providers"
  shows "LLMService_init st env =
           (case LLMService_init (st\<lparr>llm_provider := ''llamacpp''\<rparr>) env of
              (r, lg) \<Rightarrow>
                (r, LogWarning (''Unknown LLM provider '' @ [CHR 0x27] @ llm_provider st
                       @ [CHR 0x27] @ '', defaulting to llama.cpp'') # lg))
       \<and> (\<exists>self'. fst (LLMService_init st env) = Inr self')
       \<and> generate_text self st env request t0 t1 lg =
           generate_text self (st\<lparr>llm_provider := ''llamacpp''\<rparr>) env request t0 t1 lg
       \<and> (\<exists>l. snd (snd (generate_text self st env request t0 t1 lg)) = lg @ l
                \<and> filter is_warning l = [])"
proof -
  let ?w = "LogWarning (''Unknown LLM provider '' @ [CHR 0x27] @ llm_provider st
                       @ [CHR 0x27] @ '', defaulting to llama.cpp'')"
  let ?st = "st\<lparr>llm_provider := ''llamacpp''\<rparr>"
  from assms have u: "lower (llm_provider st) \<noteq> ''huggingface''"
    "lower (llm_provider st) \<noteq> ''openai''" "lower (llm_provider st) \<noteq> ''anthropic''"
    "lower (llm_provider st) \<noteq> ''llamacpp''" "lower (llm_provider st) \<noteq> ''llama.cpp''"
    "lower (llm_provider st) \<noteq> ''llama-cpp''"
    by (auto simp: known_providers_def)
  have t1: "initialize_models_try blank_service st env [] =
      load_llamacpp_model blank_service st env [?w]"
    using u by (simp add: initialize_models_try_def)
  have t2: "initialize_models_try blank_service ?st env [] =
      load_llamacpp_model blank_service st env []"
    by (simp add: initialize_models_try_def lower_llamacpp load_llamacpp_model_provider)
  have a: "LLMService_init st env =
           (case LLMService_init ?st env of (r, lg) \<Rightarrow> (r, ?w # lg))"
    unfolding LLMService_init_def initialize_models_def blank_service_def[symmetric] t1 t2
    by (subst load_llamacpp_model_log) (simp split: prod.splits sum.splits)
  have b: "generate_text self st env request t0 t1 lg =
           generate_text self ?st env request t0 t1 lg"
    using u by (simp add: generate_text_def dispatch_adapter_def lower_llamacpp
          generate_llamacpp_provider)
  have c: "\<exists>self'. fst (LLMService_init st env) = Inr self'"
    by (rule LLMService_init_never_raises)
  have d: "\<exists>l. snd (snd (generate_text self st env request t0 t1 lg)) = lg @ l
                \<and> filter is_warning l = []"
    by (rule generate_text_extends)
  from a b c d show ?thesis by blast
qed

theorem unknown_provider_falls_back_witness:
  "LLMService_init (default_settings\<lparr>llm_provider := ''MyLLM''\<rparr>) (stub_env 2) =
     (Inr loaded_service,
      [LogWarning (''Unknown LLM provider '' @ [CHR 0x27] @ ''MyLLM'' @ [CHR 0x27]
         @ '', defaulting to llama.cpp''),
       LogInfo ''Loading llama.cpp model from: models/TinyLlama-1.1B-Chat-v1.0.Q4_K_M.gguf'',
       LogInfo ''llama.cpp model loaded successfully''])
   \<and> generate_text blank_service (default_settings\<lparr>llm_provider := ''MyLLM''\<rparr>)
         (stub_env 2) stub_request 0 1 [] =
       (Inr hello_response, loaded_service,
        [LogInfo ''Loading llama.cpp model from: models/TinyLlama-1.1B-Chat-v1.0.Q4_K_M.gguf'',
         LogInfo ''llama.cpp model loaded successfully''])"
proof -
  have h: "lower (llm_provider (default_settings\<lparr>llm_provider := ''MyLLM''\<rparr>))
             \<notin> set known_providers"
    by (simp add: lower_def lower_char_def known_providers_def)
  have i: "LLMService_init (default_settings\<lparr>llm_provider := ''llamacpp''\<rparr>) (stub_env 2) =
     (Inr loaded_service,
      [LogInfo ''Loading llama.cpp model from: models/TinyLlama-1.1B-Chat-v1.0.Q4_K_M.gguf'',
       LogInfo ''llama.cpp model loaded successfully''])"
    by (simp add: LLMService_init_def initialize_models_def initialize_models_try_def
          load_llamacpp_model_def default_settings_def stub_env_def loaded_service_def
          lower_def lower_char_def)
  have g: "generate_text blank_service (default_settings\<lparr>llm_provider := ''llamacpp''\<rparr>)
            (stub_env 2) stub_request 0 1 [] =
       (Inr hello_response, loaded_service,
        [LogInfo ''Loading llama.cpp model from: models/TinyLlama-1.1B-Chat-v1.0.Q4_K_M.gguf'',
         LogInfo ''llama.cpp model loaded successfully''])"
    by (simp add: llm_eval_defs loaded_service_def hello_response_def)
  from unknown_provider_falls_back[OF h, of "stub_env 2" blank_service stub_request 0 1 "[]"]
    i g
  show ?thesis by simp
qed

text \<open>
  Claim C6 as stated fails for the dispatch: a service that started under the default
  provider, with its two log entries, generates under the unknown name \<open>MyLLM\<close> with
  the llama.cpp adapter and leaves the log as it was, with no warning in it.
\<close>

theorem dispatch_fallback_logs_no_warning_counterexample:
  "LLMService_init default_settings (stub_env 2) =
     (Inr loaded_service,
      [LogInfo ''Loading llama.cpp model from: models/TinyLlama-1.1B-Chat-v1.0.Q4_K_M.gguf'',
       LogInfo ''llama.cpp model loaded successfully''])
   \<and> generate_text loaded_service (default_settings\<lparr>llm_provider := ''MyLLM''\<rparr>)
         (stub_env 2) stub_request 0 1
         [LogInfo ''Loading llama.cpp model from: models/TinyLlama-1.1B-Chat-v1.0.Q4_K_M.gguf'',
          LogInfo ''llama.cpp model loaded successfully''] =
       (Inr hello_response, loaded_service,
        [LogInfo ''Loading llama.cpp model from: models/TinyLlama-1.1B-Chat-v1.0.Q4_K_M.gguf'',
         LogInfo ''llama.cpp model loaded successfully''])
   \<and> filter is_warning
         [LogInfo ''Loading llama.cpp model from: models/TinyLlama-1.1B-Chat-v1.0.Q4_K_M.gguf'',
          LogInfo ''llama.cpp model loaded successfully''] = []"
  by (simp add: llm_eval_defs loaded_service_def hello_response_def)

section \<open>The endpoint: usage records and storage failures\<close>

lemma str_int_7: "str_int 7 = ''7''"
  by (simp add: str_int_def str_nat.simps)

lemma stub_env_ts: "fromtimestamp_ok (stub_env n) = unix_range"
  by (simp add: stub_env_def)

lemma stub_body_request: "gen_request_of stub_body = stub_request"
  by (simp add: gen_request_of_def stub_body_def stub_request_def)

lemma stub_generate:
  "generate_text loaded_service default_settings (stub_env 2) stub_request 0 1 [] =
     (Inr \<lparr>gen_text = ''Hello'', input_tokens = 1, output_tokens = 1, total_tokens = 2,
           model_used = ''TinyLlama-1.1B-Chat-v1.0.Q4_K_M.gguf'', provider = ''llamacpp'',
           response_time_ms = 1000, cost = 0\<rparr>, loaded_service, [])"
  by (simp add: llm_eval_defs loaded_service_def)

lemma stub_enforce:
  "enforce_rate_limit unix_range (RateLimitService_init 100 3600) 120 ''user:7'' None None =
     (Inr \<lparr>limit = 100, remaining = 99, reset = 3600, window = 3600\<rparr>,
      \<lparr>default_requests = 100, default_window = 3600,
       counters = [''user:7'' \<mapsto> \<lparr>window_start = 0, count = 1\<rparr>]\<rparr>)"
  by (simp add: enforce_rate_limit_def check_rate_limit_def RateLimitService_init_def
        get_window_start_def Let_def unix_range_def)

lemma db_refresh_rows: "db_refresh d = (r, d') \<Longrightarrow> usage_rows d' = usage_rows d"
  by (auto simp: db_refresh_def split: list.splits)

lemma track_usage_Inr:
  "track_usage calc d uid ud = (Inr usage, d') \<Longrightarrow> usage_rows d' = usage_rows d @ [usage]"
  by (auto simp: track_usage_def db_commit_def db_refresh_def Let_def
           split: list.splits option.splits sum.splits)

text \<open>
  When \<open>track_usage\<close> raises, the row is in the table or not, by where it raised:
  before the commit went through, or in the refresh after it.
\<close>

lemma track_usage_Inl_rows:
  "track_usage calc d uid ud = (Inl e, d')
     \<Longrightarrow> usage_rows d' = usage_rows d \<or> (\<exists>row. usage_rows d' = usage_rows d @ [row])"
  by (auto simp: track_usage_def db_commit_def db_refresh_def Let_def
           split: list.splits option.splits sum.splits)

lemma db_commit_rows: "db_commit d = (r, d') \<Longrightarrow> usage_rows d' = usage_rows d"
  by (auto simp: db_commit_def split: list.splits)

lemma enforce_denied:
  "check_rate_limit ts_ok rls now k None None = (Inr (False, info), rl)
     \<Longrightarrow> enforce_rate_limit ts_ok rls now k None None =
           (Inl (HTTPException 429 (RateLimitExceeded info)), rl)"
  by (simp add: enforce_rate_limit_def)

text \<open>
  Claim C4, as the code has it. When the rate limit admits the request and the
  generation succeeds, but \<open>track_usage\<close> raises, the endpoint does not return the
  text: the \<open>except\<close> of the endpoint logs the error as a failed generation and
  raises status 500 with the detail \<open>Generation failed\<close>, and the database is left
  as \<open>track_usage\<close> left it.
\<close>

theorem storage_failure_fails_request:
  assumes "enforce_rate_limit (fromtimestamp_ok env) (rate_limit_service app) now
             (''user:'' @ str_int (user_id u)) None None = (Inr info, rl)"
    and "generate_text (llm_service app) st env (gen_request_of body) t0 t1 (app_log app) =
           (Inr response, llm, lg)"
    and "track_usage calc (db app) (user_id u) (usage_data_of response) = (Inl e, d)"
  shows "generate_text_endpoint calc upd st env app body u now t0 t1 =
           (Inl (HTTPException 500 (Detail ''Generation failed'')),
            app\<lparr>rate_limit_service := rl, llm_service := llm,
                app_log := lg @ [LogError ''Generation failed: '' e], db := d\<rparr>, u)"
  using assms by (simp add: generate_text_endpoint_def generation_failed_def)

theorem storage_failure_fails_request_witness:
  "generate_text_endpoint Inr (\<lambda>u n. Inr u) default_settings (stub_env 2)
     (stub_app [Some (StorageError ''database is locked'')]) stub_body stub_user 120 0 1 =
   (Inl (HTTPException 500 (Detail ''Generation failed'')),
    (stub_app [Some (StorageError ''database is locked'')])
      \<lparr>rate_limit_service :=
         \<lparr>default_requests = 100, default_window = 3600,
          counters = [''user:7'' \<mapsto> \<lparr>window_start = 0, count = 1\<rparr>]\<rparr>,
       llm_service := loaded_service,
       app_log := [LogError ''Generation failed: '' (StorageError ''database is locked'')],
       db := \<lparr>usage_rows = [], commit_outcomes = [], refresh_outcomes = []\<rparr>\<rparr>, stub_user)"
proof -
  let ?app = "stub_app [Some (StorageError ''database is locked'')]"
  have a: "enforce_rate_limit (fromtimestamp_ok (stub_env 2)) (rate_limit_service ?app) 120
             (''user:'' @ str_int (user_id stub_user)) None None =
     (Inr \<lparr>limit = 100, remaining = 99, reset = 3600, window = 3600\<rparr>,
      \<lparr>default_requests = 100, default_window = 3600,
       counters = [''user:7'' \<mapsto> \<lparr>window_start = 0, count = 1\<rparr>]\<rparr>)"
    by (simp add: stub_app_def stub_user_def str_int_7 stub_enforce stub_env_ts)
  have b: "generate_text (llm_service ?app) default_settings (stub_env 2)
             (gen_request_of stub_body) 0 1 (app_log ?app) =
     (Inr \<lparr>gen_text = ''Hello'', input_tokens = 1, output_tokens = 1, total_tokens = 2,
           model_used = ''TinyLlama-1.1B-Chat-v1.0.Q4_K_M.gguf'', provider = ''llamacpp'',
           response_time_ms = 1000, cost = 0\<rparr>, loaded_service, [])"
    by (simp add: stub_app_def stub_body_request stub_generate)
  have c: "track_usage Inr (db ?app) (user_id stub_user)
             (usage_data_of \<lparr>gen_text = ''Hello'', input_tokens = 1, output_tokens = 1,
                total_tokens = 2, model_used = ''TinyLlama-1.1B-Chat-v1.0.Q4_K_M.gguf'',
                provider = ''llamacpp'', response_time_ms = 1000, cost = 0\<rparr>) =
     (Inl (StorageError ''database is locked''), \<lparr>usage_rows = [], commit_outcomes = [], refresh_outcomes = []\<rparr>)"
    by (simp add: stub_app_def track_usage_def db_commit_def db_refresh_def)
  from storage_failure_fails_request[OF a b c, of "\<lambda>u n. Inr u"] show ?thesis by simp
qed

text \<open>
  Claim C4 as stated fails: the generation succeeds with the text \<open>Hello\<close>, the
  commit of the usage row raises a storage error, and the endpoint answers with status
  500 instead of the text.
\<close>

theorem storage_failure_fails_request_counterexample:
  "fst (generate_text loaded_service default_settings (stub_env 2)
          (gen_request_of stub_body) 0 1 []) =
     Inr \<lparr>gen_text = ''Hello'', input_tokens = 1, output_tokens = 1, total_tokens = 2,
          model_used = ''TinyLlama-1.1B-Chat-v1.0.Q4_K_M.gguf'', provider = ''llamacpp'',
          response_time_ms = 1000, cost = 0\<rparr>
   \<and> fst (generate_text_endpoint Inr (\<lambda>u n. Inr u) default_settings (stub_env 2)
          (stub_app [Some (StorageError ''database is locked'')]) stub_body stub_user 120 0 1) =
     Inl (HTTPException 500 (Detail ''Generation failed''))"
  by (simp add: generate_text_endpoint_def stub_app_def stub_user_def str_int_7 stub_enforce stub_env_ts
        stub_body_request stub_generate track_usage_def db_commit_def db_refresh_def generation_failed_def)

text \<open>
  The refresh after the commit raises: the endpoint answers with status 500 although the
  usage row is in the table.
\<close>

lemma refresh_failure_keeps_row:
  "fst (generate_text_endpoint Inr (\<lambda>u n. Inr u) default_settings (stub_env 2)
          refresh_failing_app stub_body stub_user 120 0 1) =
     Inl (HTTPException 500 (Detail ''Generation failed''))
   \<and> length (usage_rows (db (fst (snd (generate_text_endpoint Inr (\<lambda>u n. Inr u)
          default_settings (stub_env 2) refresh_failing_app stub_body stub_user 120 0 1))))) = 1"
  by (simp add: generate_text_endpoint_def refresh_failing_app_def stub_app_def stub_user_def
        str_int_7 stub_enforce stub_env_ts stub_body_request stub_generate track_usage_def
        db_commit_def db_refresh_def generation_failed_def Let_def)

text \<open>
  Claim C7. A request that the rate limit denies is answered with status 429 and leaves
  the database, the LLM service and the log as they were: no generation, no usage row.
  A request that the endpoint serves adds exactly one row to the table \<open>usage\<close>.
\<close>

theorem usage_rows_per_request:
  assumes "generate_text_endpoint calc upd st env app body u now t0 t1 = (res, app', u')"
  shows "(\<forall>info rl. check_rate_limit (fromtimestamp_ok env) (rate_limit_service app) now
                       (''user:'' @ str_int (user_id u)) None None = (Inr (False, info), rl)
            \<longrightarrow> res = Inl (HTTPException 429 (RateLimitExceeded info))
                \<and> db app' = db app \<and> llm_service app' = llm_service app
                \<and> app_log app' = app_log app)
       \<and> (\<forall>reply. res = Inr reply
            \<longrightarrow> (\<exists>row. usage_rows (db app') = usage_rows (db app) @ [row]))"
proof -
  have denied: "res = Inl (HTTPException 429 (RateLimitExceeded info))
          \<and> db app' = db app \<and> llm_service app' = llm_service app
          \<and> app_log app' = app_log app"
    if "check_rate_limit (fromtimestamp_ok env) (rate_limit_service app) now
          (''user:'' @ str_int (user_id u)) None None = (Inr (False, info), rl)"
    for info rl
    using enforce_denied[OF that] assms by (auto simp: generate_text_endpoint_def)
  have served: "\<exists>row. usage_rows (db app') = usage_rows (db app) @ [row]"
    if "res = Inr reply" for reply
    using that assms
    by (auto simp: generate_text_endpoint_def generation_failed_def Let_def
             split: prod.splits sum.splits option.splits
             dest!: track_usage_Inr db_commit_rows)
  from denied served show ?thesis by blast
qed

theorem usage_rows_per_request_witness:
  "fst (generate_text_endpoint Inr (\<lambda>u n. Inr u) default_settings (stub_env 2) denied_app
          stub_body stub_user 120 0 1) =
     Inl (HTTPException 429
           (RateLimitExceeded \<lparr>limit = 1, remaining = 0, reset = 3600, window = 3600\<rparr>))
   \<and> db (fst (snd (generate_text_endpoint Inr (\<lambda>u n. Inr u) default_settings (stub_env 2)
          denied_app stub_body stub_user 120 0 1))) = db denied_app
   \<and> (\<exists>row. usage_rows (db (fst (snd (generate_text_endpoint Inr (\<lambda>u n. Inr u)
          default_settings (stub_env 2) (stub_app []) stub_body stub_user 120 0 1)))) =
        usage_rows (db (stub_app [])) @ [row])"
proof -
  let ?denied = "generate_text_endpoint Inr (\<lambda>u n. Inr u) default_settings (stub_env 2)
          denied_app stub_body stub_user 120 0 1"
  let ?served = "generate_text_endpoint Inr (\<lambda>u n. Inr u) default_settings (stub_env 2)
          (stub_app []) stub_body stub_user 120 0 1"
  have c: "check_rate_limit (fromtimestamp_ok (stub_env 2)) (rate_limit_service denied_app) 120
             (''user:'' @ str_int (user_id stub_user)) None None =
           (Inr (False, \<lparr>limit = 1, remaining = 0, reset = 3600, window = 3600\<rparr>),
            rate_limit_service denied_app)"
    by (simp add: denied_app_def stub_app_def stub_user_def str_int_7 check_rate_limit_def
          get_window_start_def Let_def stub_env_def unix_range_def)
  have d: "?denied = (fst ?denied, fst (snd ?denied), snd (snd ?denied))" by simp
  have s: "?served = (fst ?served, fst (snd ?served), snd (snd ?served))" by simp
  have r: "fst ?served =
     Inr \<lparr>reply_text = ''Hello'', reply_total_tokens = 2, reply_cost = 0,
          reply_model = ''TinyLlama-1.1B-Chat-v1.0.Q4_K_M.gguf'', reply_provider = ''llamacpp''\<rparr>"
    by (simp add: generate_text_endpoint_def stub_app_def stub_user_def str_int_7 stub_enforce stub_env_ts
          stub_body_request stub_generate track_usage_def db_commit_def db_refresh_def Let_def)
  from usage_rows_per_request[OF d] c usage_rows_per_request[OF s] r
  show ?thesis by blast
qed

end
